theory Spec2Isabelle
  imports Main "HOL-Library.Char_ord" "HOL-Library.List_Lexorder" "HOL-Library.Multiset"
begin

section \<open>Data shared by the two components\<close>

text \<open>
  The JSON types declared at the top of both source files. Dates are ISO
  \<open>yyyy-MM-dd\<close> strings, weekday indices are the array indices of
  \<open>['Sun', ..., 'Sat']\<close> (0 = Sunday, 6 = Saturday).
\<close>

record ScheduleItem =
  item_type :: string
  task_id :: int
  milestone_id :: int
  title :: string
  duration_minutes :: int
  item_notes :: "string option"

record ScheduleDay =
  date :: string
  items :: "ScheduleItem list"
  summary :: "string option"

record Schedule =
  course_id :: int
  generated_at :: string
  schedule_timezone :: string
  schedule_days :: "ScheduleDay list"

text \<open>\<open>ApiResponse\<close>: the field \<open>schedule\<close> may be absent.\<close>

type_synonym ApiResponse = "Schedule option"

text \<open>
  What \<open>await fetch(...)\<close> followed by \<open>await res.json()\<close> can do: the fetch
  rejects, or it resolves to a response with a status and a body that parses
  (\<open>Some\<close>) or makes \<open>res.json()\<close> throw (\<open>None\<close>).
\<close>

datatype fetch_outcome = Rejected | Responded nat "ApiResponse option"

datatype failure = NetworkFailure | HttpError nat | ParseFailure

datatype log_entry = ConsoleError string failure

definition res_ok :: "nat \<Rightarrow> bool" where
  "res_ok status = (200 \<le> status \<and> status \<le> 299)"

text \<open>
  The body of the \<open>try\<close> block up to \<open>const data = await res.json()\<close>:
  \<open>if (!res.ok) throw new Error(`Failed: ${res.status}`)\<close>.
\<close>

fun fetch_json :: "fetch_outcome \<Rightarrow> failure + ApiResponse" where
  "fetch_json Rejected = Inl NetworkFailure"
| "fetch_json (Responded status body) =
     (if \<not> res_ok status then Inl (HttpError status)
      else case body of None \<Rightarrow> Inl ParseFailure | Some data \<Rightarrow> Inr data)"

text \<open>\<open>data.schedule?.days || []\<close>\<close>

definition response_days :: "ApiResponse \<Rightarrow> ScheduleDay list" where
  "response_days data = (case data of None \<Rightarrow> [] | Some sch \<Rightarrow> schedule_days sch)"

section \<open>The calendar page (CourseScheduler)\<close>

type_synonym ProcessedSchedule = "string \<rightharpoonup> ScheduleDay"

record SchedulerState =
  currentDate :: string
  startDate :: string
  includeWeekends :: bool
  excludeWeekdays :: "nat list"
  excludeDates :: "string list"
  hoursPerDay :: int
  daysPerWeek :: int
  timezone :: string
  isLoading :: bool
  isSaving :: bool
  scheduledTasks :: ProcessedSchedule
  hoveredDate :: "string option"

text \<open>The \<open>useState\<close> initial values; \<open>now\<close> is \<open>new Date()\<close> at the first render.\<close>

definition initialState :: "string \<Rightarrow> SchedulerState" where
  "initialState now =
     \<lparr> currentDate = now, startDate = [], includeWeekends = False,
       excludeWeekdays = [0, 6], excludeDates = [], hoursPerDay = 2,
       daysPerWeek = 5, timezone = ''UTC'', isLoading = False, isSaving = False,
       scheduledTasks = Map.empty, hoveredDate = None \<rparr>"

text \<open>
  \<open>[...new Set(xs)]\<close>: a JavaScript \<open>Set\<close> keeps insertion order and ignores the
  insertion of a member it already has.
\<close>

fun setAddAll :: "'a list \<Rightarrow> 'a list \<Rightarrow> 'a list" where
  "setAddAll acc [] = acc"
| "setAddAll acc (x # xs) = setAddAll (if x \<in> set acc then acc else acc @ [x]) xs"

definition newSet :: "'a list \<Rightarrow> 'a list" where
  "newSet xs = setAddAll [] xs"

text \<open>The effect with dependency \<open>[startDate]\<close>.\<close>

definition startDateEffect :: "string \<Rightarrow> SchedulerState \<Rightarrow> SchedulerState" where
  "startDateEffect today s = (if startDate s = [] then s\<lparr>startDate := today\<rparr> else s)"

text \<open>The effect with dependency \<open>[includeWeekends]\<close>.\<close>

definition includeWeekendsEffect :: "SchedulerState \<Rightarrow> SchedulerState" where
  "includeWeekendsEffect s =
     (if includeWeekends s
      then s\<lparr>excludeWeekdays := filter (\<lambda>d. d \<noteq> 0 \<and> d \<noteq> 6) (excludeWeekdays s)\<rparr>
      else s\<lparr>excludeWeekdays := newSet (excludeWeekdays s @ [0, 6])\<rparr>)"

text \<open>Both effects run after the first render.\<close>

definition mount :: "string \<Rightarrow> SchedulerState" where
  "mount today = includeWeekendsEffect (startDateEffect today (initialState today))"

text \<open>
  After an event handler has set the state \<open>new\<close> from the rendered state \<open>old\<close>,
  React re-renders and runs the effects whose dependency changed. None of the
  handlers below changes \<open>startDate\<close> to the empty string, so only the
  \<open>includeWeekends\<close> effect can fire.
\<close>

definition rerender :: "SchedulerState \<Rightarrow> SchedulerState \<Rightarrow> SchedulerState" where
  "rerender old new =
     (if includeWeekends new \<noteq> includeWeekends old then includeWeekendsEffect new else new)"

text \<open>The switch: \<open>onClick={() => setIncludeWeekends(!includeWeekends)}\<close>.\<close>

definition toggleIncludeWeekends :: "SchedulerState \<Rightarrow> SchedulerState" where
  "toggleIncludeWeekends s = rerender s (s\<lparr>includeWeekends := \<not> includeWeekends s\<rparr>)"

definition handleWeekdayToggle :: "SchedulerState \<Rightarrow> nat \<Rightarrow> SchedulerState" where
  "handleWeekdayToggle s dayIndex =
     (let isExcluded = dayIndex \<in> set (excludeWeekdays s);
          s1 = (if isExcluded \<and> (dayIndex = 0 \<or> dayIndex = 6)
                then s\<lparr>includeWeekends := True\<rparr> else s);
          s2 = s1\<lparr>excludeWeekdays :=
                 (if isExcluded then filter (\<lambda>d. d \<noteq> dayIndex) (excludeWeekdays s1)
                  else excludeWeekdays s1 @ [dayIndex])\<rparr>
      in rerender s s2)"

text \<open>\<open>dateStr\<close> is \<open>format(day, 'yyyy-MM-dd')\<close> of the clicked cell.\<close>

definition handleDateClick :: "SchedulerState \<Rightarrow> string \<Rightarrow> SchedulerState" where
  "handleDateClick s dateStr =
     s\<lparr>excludeDates :=
         (if dateStr \<in> set (excludeDates s) then filter (\<lambda>d. d \<noteq> dateStr) (excludeDates s)
          else excludeDates s @ [dateStr])\<rparr>"

text \<open>
  \<open>(data.schedule?.days || []).reduce((acc, day) => { acc[day.date] = day; return acc }, {})\<close>
\<close>

definition scheduleMap :: "ApiResponse \<Rightarrow> ProcessedSchedule" where
  "scheduleMap data = foldl (\<lambda>acc day. acc(date day \<mapsto> day)) Map.empty (response_days data)"

text \<open>
  \<open>handleSubmit\<close> and \<open>handlePersist\<close>, from the click to the end of the
  \<open>finally\<close> block. \<open>courseId\<close> is \<open>params?.courseId\<close>; the empty string is
  falsy like \<open>undefined\<close>. The second component of the result is what was
  written to \<open>console.error\<close>. No other event is handled between the click and
  the end of the call.
\<close>

definition handleSubmit ::
  "SchedulerState \<Rightarrow> string option \<Rightarrow> fetch_outcome \<Rightarrow> SchedulerState \<times> log_entry list" where
  "handleSubmit s courseId outcome =
     (if courseId = None \<or> courseId = Some [] then (s, [])
      else
        let s1 = s\<lparr>isLoading := True, scheduledTasks := Map.empty\<rparr>
        in case fetch_json outcome of
             Inr data \<Rightarrow> (s1\<lparr>scheduledTasks := scheduleMap data, isLoading := False\<rparr>, [])
           | Inl err \<Rightarrow>
               (s1\<lparr>isLoading := False\<rparr>, [ConsoleError ''Failed to generate schedule:'' err]))"

definition handlePersist ::
  "SchedulerState \<Rightarrow> string option \<Rightarrow> fetch_outcome \<Rightarrow> SchedulerState \<times> log_entry list" where
  "handlePersist s courseId outcome =
     (if courseId = None \<or> courseId = Some [] then (s, [])
      else
        let s1 = s\<lparr>isSaving := True\<rparr>
        in case fetch_json outcome of
             Inr data \<Rightarrow> (s1\<lparr>scheduledTasks := scheduleMap data, isSaving := False\<rparr>, [])
           | Inl err \<Rightarrow>
               (s1\<lparr>isSaving := False\<rparr>, [ConsoleError ''Failed to save schedule:'' err]))"

text \<open>
  The three toggles as events, and the state the mounted page is in after a
  sequence of them.
\<close>

datatype event = ToggleIncludeWeekends | ToggleExcludedWeekday nat | ToggleExcludedDate string

fun step :: "SchedulerState \<Rightarrow> event \<Rightarrow> SchedulerState" where
  "step s ToggleIncludeWeekends = toggleIncludeWeekends s"
| "step s (ToggleExcludedWeekday i) = handleWeekdayToggle s i"
| "step s (ToggleExcludedDate d) = handleDateClick s d"

definition run :: "string \<Rightarrow> event list \<Rightarrow> SchedulerState" where
  "run today evs = foldl step (mount today) evs"

text \<open>
  An event excludes a weekend day by hand when it toggles weekday 0 or 6 while
  \<open>includeWeekends\<close> is on; \<open>no_weekend_click s evs\<close> says that no event of
  \<open>evs\<close>, run from \<open>s\<close>, does so.
\<close>

fun weekend_click :: "SchedulerState \<Rightarrow> event \<Rightarrow> bool" where
  "weekend_click s (ToggleExcludedWeekday i) = (includeWeekends s \<and> (i = 0 \<or> i = 6))"
| "weekend_click s _ = False"

fun no_weekend_click :: "SchedulerState \<Rightarrow> event list \<Rightarrow> bool" where
  "no_weekend_click s [] = True"
| "no_weekend_click s (e # es) = (\<not> weekend_click s e \<and> no_weekend_click (step s e) es)"

text \<open>The calendar cell's \<open>isExcluded\<close>, for the cell of date \<open>dayStr\<close> and weekday \<open>dayNumber\<close>.\<close>

definition isExcluded :: "SchedulerState \<Rightarrow> string \<Rightarrow> nat \<Rightarrow> bool" where
  "isExcluded s dayStr dayNumber =
     (dayStr \<in> set (excludeDates s) \<or> dayNumber \<in> set (excludeWeekdays s))"

section \<open>The saved-schedule card (SavedScheduleCard)\<close>

record CardState =
  days :: "ScheduleDay list"
  card_timezone :: string
  currentIndex :: int
  card_isLoading :: bool

definition initialCard :: CardState where
  "initialCard = \<lparr> days = [], card_timezone = ''UTC'', currentIndex = 0, card_isLoading = False \<rparr>"

text \<open>\<open>Array.prototype.findIndex\<close>: the first index whose element satisfies \<open>P\<close>, or -1.\<close>

fun findIndexFrom :: "('a \<Rightarrow> bool) \<Rightarrow> 'a list \<Rightarrow> int \<Rightarrow> int" where
  "findIndexFrom P [] i = - 1"
| "findIndexFrom P (x # xs) i = (if P x then i else findIndexFrom P xs (i + 1))"

definition findIndex :: "('a \<Rightarrow> bool) \<Rightarrow> 'a list \<Rightarrow> int" where
  "findIndex P xs = findIndexFrom P xs 0"

text \<open>
  \<open>xs.slice().sort(cmp)\<close>: the sort is stable, and \<open>cmp a b \<le> 0\<close> keeps \<open>a\<close>
  before \<open>b\<close>. Insertion from the right puts each element before the first
  element of the sorted rest that it does not come after.
\<close>

fun insertBy :: "('a \<Rightarrow> 'a \<Rightarrow> int) \<Rightarrow> 'a \<Rightarrow> 'a list \<Rightarrow> 'a list" where
  "insertBy cmp x [] = [x]"
| "insertBy cmp x (y # ys) = (if cmp x y \<le> 0 then x # y # ys else y # insertBy cmp x ys)"

definition sortBy :: "('a \<Rightarrow> 'a \<Rightarrow> int) \<Rightarrow> 'a list \<Rightarrow> 'a list" where
  "sortBy cmp xs = foldr (insertBy cmp) xs []"

text \<open>
  \<open>String.prototype.localeCompare\<close> is the platform's collation and a parameter
  of \<open>load\<close>. \<open>codeUnitCompare\<close> is the comparison by code units, the one that
  \<open>d.date > today\<close> uses; a collation \<open>iso_collation\<close> agrees with it on
  \<open>yyyy-MM-dd\<close> strings, which are made of digits and hyphens at fixed places.
\<close>

definition codeUnitCompare :: "string \<Rightarrow> string \<Rightarrow> int" where
  "codeUnitCompare a b = (if a < b then - 1 else if a = b then 0 else 1)"

definition isDigit :: "char \<Rightarrow> bool" where
  "isDigit c = (CHR ''0'' \<le> c \<and> c \<le> CHR ''9'')"

fun isoDate :: "string \<Rightarrow> bool" where
  "isoDate [y1, y2, y3, y4, h1, m1, m2, h2, d1, d2] =
     (isDigit y1 \<and> isDigit y2 \<and> isDigit y3 \<and> isDigit y4 \<and> h1 = CHR ''-'' \<and>
      isDigit m1 \<and> isDigit m2 \<and> h2 = CHR ''-'' \<and> isDigit d1 \<and> isDigit d2)"
| "isoDate _ = False"

definition iso_collation :: "(string \<Rightarrow> string \<Rightarrow> int) \<Rightarrow> bool" where
  "iso_collation localeCompare =
     (\<forall>a b. isoDate a \<and> isoDate b \<longrightarrow>
        (localeCompare a b < 0) = (a < b) \<and> (localeCompare a b = 0) = (a = b))"

text \<open>
  The default selection of the load effect:
  \<open>let idx = fetchedDays.findIndex((d) => d.date === today);
   if (idx === -1) idx = fetchedDays.findIndex((d) => d.date > today);
   setCurrentIndex(Math.max(0, idx))\<close>
\<close>

definition defaultSelection :: "ScheduleDay list \<Rightarrow> string \<Rightarrow> int" where
  "defaultSelection fetchedDays today =
     (let idx = findIndex (\<lambda>d. date d = today) fetchedDays;
          idx = (if idx = - 1 then findIndex (\<lambda>d. today < date d) fetchedDays else idx)
      in max 0 idx)"

text \<open>\<open>data.schedule?.timezone || "UTC"\<close>: the empty string is falsy.\<close>

definition response_timezone :: "ApiResponse \<Rightarrow> string" where
  "response_timezone data =
     (case data of None \<Rightarrow> ''UTC''
      | Some sch \<Rightarrow> if schedule_timezone sch = [] then ''UTC'' else schedule_timezone sch)"

text \<open>
  The load effect, from its start to the end of \<open>finally\<close>; \<open>today\<close> is
  \<open>format(new Date(), "yyyy-MM-dd")\<close>.
\<close>

definition load ::
  "(string \<Rightarrow> string \<Rightarrow> int) \<Rightarrow> CardState \<Rightarrow> fetch_outcome \<Rightarrow> string \<Rightarrow>
   CardState \<times> log_entry list" where
  "load localeCompare s outcome today =
     (let s1 = s\<lparr>card_isLoading := True\<rparr>
      in case fetch_json outcome of
           Inr data \<Rightarrow>
             (let fetchedDays =
                    sortBy (\<lambda>a b. localeCompare (date a) (date b)) (response_days data)
              in (s1\<lparr>days := fetchedDays, card_timezone := response_timezone data,
                     currentIndex := defaultSelection fetchedDays today,
                     card_isLoading := False\<rparr>, []))
         | Inl err \<Rightarrow>
             (s1\<lparr>card_isLoading := False\<rparr>,
              [ConsoleError ''Failed to load saved schedule:'' err]))"

text \<open>\<open>days[currentIndex]\<close>, which is \<open>undefined\<close> out of range.\<close>

definition currentDay :: "CardState \<Rightarrow> ScheduleDay option" where
  "currentDay s =
     (if 0 \<le> currentIndex s \<and> currentIndex s < int (length (days s))
      then Some (days s ! nat (currentIndex s)) else None)"

text \<open>
  \<open>isToday(parseISO(d))\<close> and \<open>isTomorrow(parseISO(d))\<close> compare the local
  calendar day of \<open>d\<close> with today's and tomorrow's, given here as
  \<open>yyyy-MM-dd\<close> strings; \<open>fmt\<close> is \<open>format(dt, "EEE, MMM d")\<close>.
\<close>

definition headerLabel :: "(string \<Rightarrow> string) \<Rightarrow> string \<Rightarrow> string \<Rightarrow> CardState \<Rightarrow> string" where
  "headerLabel fmt today tomorrow s =
     (case currentDay s of
        None \<Rightarrow> ''No schedule''
      | Some d \<Rightarrow>
          if date d = today then ''Today''
          else if date d = tomorrow then ''Tomorrow''
          else fmt (date d))"

definition canPrev :: "CardState \<Rightarrow> bool" where
  "canPrev s = (currentIndex s > 0)"

definition canNext :: "CardState \<Rightarrow> bool" where
  "canNext s = (currentIndex s < max 0 (int (length (days s)) - 1))"

text \<open>The \<open>onClick\<close> handlers of the two arrow buttons and of the three jump buttons.\<close>

definition onPrevClick :: "CardState \<Rightarrow> CardState" where
  "onPrevClick s = (if canPrev s then s\<lparr>currentIndex := currentIndex s - 1\<rparr> else s)"

definition onNextClick :: "CardState \<Rightarrow> CardState" where
  "onNextClick s = (if canNext s then s\<lparr>currentIndex := currentIndex s + 1\<rparr> else s)"

definition onTodayClick :: "CardState \<Rightarrow> string \<Rightarrow> CardState" where
  "onTodayClick s todayStr =
     (if days s = [] then s
      else let idx = findIndex (\<lambda>d. date d = todayStr) (days s)
           in s\<lparr>currentIndex := max 0 (if idx = - 1 then 0 else idx)\<rparr>)"

text \<open>\<open>tomorrowStr\<close> is \<open>format(new Date(Date.now() + 86400000), "yyyy-MM-dd")\<close>.\<close>

definition onTomorrowClick :: "CardState \<Rightarrow> string \<Rightarrow> CardState" where
  "onTomorrowClick s tomorrowStr =
     (if days s = [] then s
      else let idx = findIndex (\<lambda>d. date d = tomorrowStr) (days s)
           in s\<lparr>currentIndex := max 0 (if idx = - 1 then 0 else idx)\<rparr>)"

definition onUpcomingClick :: "CardState \<Rightarrow> string \<Rightarrow> CardState" where
  "onUpcomingClick s todayStr =
     (if days s = [] then s
      else let idx = findIndex (\<lambda>d. todayStr < date d) (days s)
           in s\<lparr>currentIndex := max 0 (if idx = - 1 then 0 else idx)\<rparr>)"

section \<open>Invariants and example data\<close>

text \<open>The two halves of the coupling between \<open>includeWeekends\<close> and the weekend indices.\<close>

definition weekends_excluded :: "SchedulerState \<Rightarrow> bool" where
  "weekends_excluded s = (0 \<in> set (excludeWeekdays s) \<and> 6 \<in> set (excludeWeekdays s))"

definition weekends_included :: "SchedulerState \<Rightarrow> bool" where
  "weekends_included s = (0 \<notin> set (excludeWeekdays s) \<and> 6 \<notin> set (excludeWeekdays s))"

text \<open>A day without items, a page that shows one scheduled day, a card with three days.\<close>

definition emptyDay :: "string \<Rightarrow> ScheduleDay" where
  "emptyDay d = \<lparr> date = d, items = [], summary = None \<rparr>"

definition loadedPage :: SchedulerState where
  "loadedPage = (mount ''2025-01-06'')\<lparr>scheduledTasks := [''2025-01-06'' \<mapsto> emptyDay ''2025-01-06'']\<rparr>"

definition threeDays :: CardState where
  "threeDays = \<lparr> days = [emptyDay ''2025-01-06'', emptyDay ''2025-01-07'', emptyDay ''2025-01-09''],
       card_timezone = ''UTC'', currentIndex = 0, card_isLoading = False \<rparr>"

definition unsortedResponse :: ApiResponse where
  "unsortedResponse = Some \<lparr> course_id = 7, generated_at = ''2025-01-05T10:00:00Z'',
       schedule_timezone = ''Asia/Kolkata'',
       schedule_days = [emptyDay ''2025-01-09'', emptyDay ''2025-01-06'', emptyDay ''2025-01-07''] \<rparr>"

section \<open>Properties of the calendar page\<close>

lemma set_setAddAll: "set (setAddAll acc xs) = set acc \<union> set xs"
  by (induction xs arbitrary: acc) auto

lemma distinct_setAddAll: "distinct acc \<Longrightarrow> distinct (setAddAll acc xs)"
  by (induction xs arbitrary: acc) auto

lemma set_newSet: "set (newSet xs) = set xs"
  by (simp add: newSet_def set_setAddAll)

lemma distinct_newSet: "distinct (newSet xs)"
  by (simp add: newSet_def distinct_setAddAll)

lemma count_list_distinct: "distinct xs \<Longrightarrow> x \<in> set xs \<Longrightarrow> count_list xs x = 1"
  by (induction xs) (auto simp: count_list_0_iff)

lemmas builder_defs = handleWeekdayToggle_def rerender_def includeWeekendsEffect_def
  toggleIncludeWeekends_def handleDateClick_def

lemmas run_eval = run_def mount_def initialState_def startDateEffect_def builder_defs newSet_def

lemma step_off_excluded:
  assumes "\<not> includeWeekends s \<longrightarrow> weekends_excluded s"
  shows "\<not> includeWeekends (step s e) \<longrightarrow> weekends_excluded (step s e)"
proof (cases e)
  case ToggleIncludeWeekends
  then show ?thesis
    by (simp add: weekends_excluded_def toggleIncludeWeekends_def rerender_def
        includeWeekendsEffect_def set_newSet)
next
  case (ToggleExcludedWeekday i)
  with assms show ?thesis
    by (auto simp: weekends_excluded_def handleWeekdayToggle_def rerender_def
        includeWeekendsEffect_def Let_def)
next
  case (ToggleExcludedDate d)
  with assms show ?thesis
    by (simp add: weekends_excluded_def handleDateClick_def)
qed

lemma foldl_step_off_excluded:
  "\<not> includeWeekends s \<longrightarrow> weekends_excluded s \<Longrightarrow>
   \<not> includeWeekends (foldl step s evs) \<longrightarrow> weekends_excluded (foldl step s evs)"
proof (induction evs arbitrary: s)
  case Nil
  then show ?case by simp
next
  case (Cons e evs)
  from step_off_excluded[OF Cons.prems] show ?case
    by (simp add: Cons.IH)
qed

lemma step_on_included:
  assumes "includeWeekends s \<longrightarrow> weekends_included s" and "\<not> weekend_click s e"
  shows "includeWeekends (step s e) \<longrightarrow> weekends_included (step s e)"
proof (cases e)
  case ToggleIncludeWeekends
  then show ?thesis
    by (simp add: weekends_included_def toggleIncludeWeekends_def rerender_def
        includeWeekendsEffect_def)
next
  case (ToggleExcludedWeekday i)
  with assms show ?thesis
    by (auto simp: weekends_included_def handleWeekdayToggle_def rerender_def
        includeWeekendsEffect_def Let_def)
next
  case (ToggleExcludedDate d)
  with assms show ?thesis
    by (simp add: weekends_included_def handleDateClick_def)
qed

lemma foldl_step_on_included:
  "includeWeekends s \<longrightarrow> weekends_included s \<Longrightarrow> no_weekend_click s evs \<Longrightarrow>
   includeWeekends (foldl step s evs) \<longrightarrow> weekends_included (foldl step s evs)"
proof (induction evs arbitrary: s)
  case Nil
  then show ?case by simp
next
  case (Cons e evs)
  from Cons.prems have "\<not> weekend_click s e" "no_weekend_click (step s e) evs" by simp_all
  with step_on_included[OF Cons.prems(1)] show ?case
    by (simp add: Cons.IH)
qed

lemma mount_state:
  "includeWeekends (mount today) = False" "excludeWeekdays (mount today) = [0, 6]"
  by (simp_all add: mount_def initialState_def startDateEffect_def includeWeekendsEffect_def
      newSet_def)

lemma fetch_json_fails:
  "(\<exists>err. fetch_json outcome = Inl err) =
   (outcome = Rejected \<or> (\<exists>status body. outcome = Responded status body \<and>
      (\<not> res_ok status \<or> body = None)))"
  by (cases outcome) (auto split: option.splits)

subsection \<open>Failed generate and persist calls\<close>

text \<open>
  C1, as the code has it. When a generate (\<open>handleSubmit\<close>) or persist
  (\<open>handlePersist\<close>) call fails, because the fetch rejects, the status is not 2xx
  or the body does not parse, the error is written to \<open>console.error\<close> and nothing
  of a response is merged. A failed persist call leaves the schedule index as it was
  before the call. A failed generate call leaves it empty: \<open>handleSubmit\<close>
  clears the index before it sends the request and does not restore it.
\<close>

theorem failed_call_schedule:
  assumes "fetch_json outcome = Inl err" and "courseId \<noteq> None" and "courseId \<noteq> Some []"
  shows "handlePersist s courseId outcome =
           (s\<lparr>isSaving := False\<rparr>, [ConsoleError ''Failed to save schedule:'' err]) \<and>
         scheduledTasks (fst (handlePersist s courseId outcome)) = scheduledTasks s \<and>
         handleSubmit s courseId outcome =
           (s\<lparr>isLoading := False, scheduledTasks := Map.empty\<rparr>,
            [ConsoleError ''Failed to generate schedule:'' err]) \<and>
         scheduledTasks (fst (handleSubmit s courseId outcome)) = Map.empty"
  using assms by (simp add: handlePersist_def handleSubmit_def)

theorem failed_call_schedule_witness:
  "fetch_json (Responded 500 None) = Inl (HttpError 500) \<and>
   scheduledTasks (fst (handlePersist loadedPage (Some ''7'') (Responded 500 None))) ''2025-01-06''
     = Some (emptyDay ''2025-01-06'') \<and>
   snd (handlePersist loadedPage (Some ''7'') (Responded 500 None))
     = [ConsoleError ''Failed to save schedule:'' (HttpError 500)] \<and>
   scheduledTasks (fst (handleSubmit loadedPage (Some ''7'') (Responded 500 None))) ''2025-01-06''
     = None \<and>
   fetch_json Rejected = Inl NetworkFailure \<and>
   handlePersist loadedPage (Some ''7'') Rejected
     = (loadedPage, [ConsoleError ''Failed to save schedule:'' NetworkFailure]) \<and>
   fetch_json (Responded 200 None) = Inl ParseFailure \<and>
   snd (handleSubmit loadedPage (Some ''7'') (Responded 200 None))
     = [ConsoleError ''Failed to generate schedule:'' ParseFailure]"
  using failed_call_schedule[where outcome = "Responded 500 None" and err = "HttpError 500"
      and courseId = "Some ''7''" and s = loadedPage]
    failed_call_schedule[where outcome = Rejected and err = NetworkFailure
      and courseId = "Some ''7''" and s = loadedPage]
    failed_call_schedule[where outcome = "Responded 200 None" and err = ParseFailure
      and courseId = "Some ''7''" and s = loadedPage]
  by (simp add: res_ok_def loadedPage_def run_eval)

text \<open>
  C1 as stated fails for generate calls: the page shows the day 2025-01-06, the
  generate call is answered with status 500, and afterwards the index no longer has
  that day.
\<close>

theorem failed_generate_clears_schedule:
  "fetch_json (Responded 500 None) = Inl (HttpError 500) \<and>
   scheduledTasks loadedPage ''2025-01-06'' = Some (emptyDay ''2025-01-06'') \<and>
   scheduledTasks (fst (handleSubmit loadedPage (Some ''7'') (Responded 500 None))) ''2025-01-06''
     = None \<and>
   scheduledTasks (fst (handleSubmit loadedPage (Some ''7'') (Responded 500 None)))
     \<noteq> scheduledTasks loadedPage"
proof -
  have a: "fetch_json (Responded 500 None) = Inl (HttpError 500)"
    by (simp add: res_ok_def)
  have b: "scheduledTasks loadedPage ''2025-01-06'' = Some (emptyDay ''2025-01-06'')"
    by (simp add: loadedPage_def)
  have c: "scheduledTasks (fst (handleSubmit loadedPage (Some ''7'') (Responded 500 None)))
      ''2025-01-06'' = None"
    by (simp add: res_ok_def handleSubmit_def)
  from b c have "scheduledTasks (fst (handleSubmit loadedPage (Some ''7'') (Responded 500 None)))
     \<noteq> scheduledTasks loadedPage"
    by (metis option.distinct(1))
  with a b c show ?thesis by simp
qed

subsection \<open>The coupling of includeWeekends and the weekend indices\<close>

text \<open>
  C2, as the code has it. In every state that a sequence of the three toggles
  reaches from the mounted page, \<open>includeWeekends = false\<close> implies that 0 and 6
  are both in \<open>excludeWeekdays\<close>. The other direction, \<open>includeWeekends = true\<close>
  implies that neither 0 nor 6 is in \<open>excludeWeekdays\<close>, holds in every state
  reached by a sequence in which weekday 0 or 6 is never toggled while
  \<open>includeWeekends\<close> is on.
\<close>

theorem weekend_coupling:
  "(\<not> includeWeekends (run today evs) \<longrightarrow>
      0 \<in> set (excludeWeekdays (run today evs)) \<and> 6 \<in> set (excludeWeekdays (run today evs))) \<and>
   (no_weekend_click (mount today) evs \<longrightarrow> includeWeekends (run today evs) \<longrightarrow>
      0 \<notin> set (excludeWeekdays (run today evs)) \<and> 6 \<notin> set (excludeWeekdays (run today evs)))"
proof -
  have off: "\<not> includeWeekends (mount today) \<longrightarrow> weekends_excluded (mount today)"
    by (simp add: mount_state weekends_excluded_def)
  have on: "includeWeekends (mount today) \<longrightarrow> weekends_included (mount today)"
    by (simp add: mount_state)
  from foldl_step_off_excluded[OF off, of evs] foldl_step_on_included[OF on, of evs]
  show ?thesis
    by (simp add: run_def weekends_excluded_def weekends_included_def)
qed

theorem weekend_coupling_witness:
  "includeWeekends (run ''2025-01-06'' [ToggleExcludedWeekday 0, ToggleExcludedWeekday 3]) \<and>
   no_weekend_click (mount ''2025-01-06'') [ToggleExcludedWeekday 0, ToggleExcludedWeekday 3] \<and>
   excludeWeekdays (run ''2025-01-06'' [ToggleExcludedWeekday 0, ToggleExcludedWeekday 3]) = [3] \<and>
   \<not> includeWeekends (run ''2025-01-06'' [ToggleIncludeWeekends, ToggleIncludeWeekends]) \<and>
   excludeWeekdays (run ''2025-01-06'' [ToggleIncludeWeekends, ToggleIncludeWeekends]) = [0, 6]"
  using weekend_coupling[of "''2025-01-06''" "[ToggleExcludedWeekday 0, ToggleExcludedWeekday 3]"]
    weekend_coupling[of "''2025-01-06''" "[ToggleIncludeWeekends, ToggleIncludeWeekends]"]
  by (simp add: run_eval)

text \<open>
  C2 as stated fails: after the switch has turned \<open>includeWeekends\<close> on, a click
  on Sunday adds 0 to \<open>excludeWeekdays\<close> and leaves \<open>includeWeekends\<close> on.
\<close>

theorem weekend_excluded_while_included:
  "includeWeekends (run ''2025-01-06'' [ToggleIncludeWeekends, ToggleExcludedWeekday 0]) \<and>
   0 \<in> set (excludeWeekdays (run ''2025-01-06'' [ToggleIncludeWeekends, ToggleExcludedWeekday 0]))"
  by (simp add: run_eval)

subsection \<open>The weekday buttons and the switch\<close>

text \<open>
  C4. For a weekend index \<open>i\<close> (0 or 6) and every state: if \<open>i\<close> is excluded,
  \<open>handleWeekdayToggle\<close> removes it from \<open>excludeWeekdays\<close> and \<open>includeWeekends\<close>
  is true afterwards; if \<open>i\<close> is not excluded, the toggle adds it and leaves
  \<open>includeWeekends\<close> as it was, so excluding a weekend day never turns
  \<open>includeWeekends\<close> off.
\<close>

theorem weekday_toggle_forces_includeWeekends:
  "i = 0 \<or> i = 6 \<Longrightarrow>
   (i \<in> set (excludeWeekdays s) \<longrightarrow>
      i \<notin> set (excludeWeekdays (handleWeekdayToggle s i)) \<and>
      includeWeekends (handleWeekdayToggle s i)) \<and>
   (i \<notin> set (excludeWeekdays s) \<longrightarrow>
      i \<in> set (excludeWeekdays (handleWeekdayToggle s i)) \<and>
      includeWeekends (handleWeekdayToggle s i) = includeWeekends s)"
  by (auto simp: handleWeekdayToggle_def rerender_def includeWeekendsEffect_def Let_def)

theorem weekday_toggle_forces_includeWeekends_witness:
  "(0::nat) \<in> set (excludeWeekdays (mount ''2025-01-06''))
   \<and> 0 \<notin> set (excludeWeekdays (handleWeekdayToggle (mount ''2025-01-06'') 0))
   \<and> includeWeekends (handleWeekdayToggle (mount ''2025-01-06'') 0)
   \<and> 6 \<notin> set (excludeWeekdays (toggleIncludeWeekends (mount ''2025-01-06'')))
   \<and> 6 \<in> set (excludeWeekdays (handleWeekdayToggle (toggleIncludeWeekends (mount ''2025-01-06'')) 6))
   \<and> includeWeekends (handleWeekdayToggle (toggleIncludeWeekends (mount ''2025-01-06'')) 6)"
  using weekday_toggle_forces_includeWeekends[of 0 "mount ''2025-01-06''"]
    weekday_toggle_forces_includeWeekends[of 6 "toggleIncludeWeekends (mount ''2025-01-06'')"]
  by (simp add: run_eval)

text \<open>
  C9. When a weekend index \<open>i\<close> is excluded and \<open>includeWeekends\<close> is off, the
  toggle of \<open>i\<close> turns \<open>includeWeekends\<close> on, the effect fires, and afterwards
  \<open>excludeWeekdays\<close> is the list it was without its entries 0 and 6: the other
  weekend day is removed too, every other excluded weekday stays, in its order,
  and nothing else of the state changes.
\<close>

theorem weekend_reinclude_strips_both:
  "i = 0 \<or> i = 6 \<Longrightarrow> i \<in> set (excludeWeekdays s) \<Longrightarrow> \<not> includeWeekends s \<Longrightarrow>
   0 \<notin> set (excludeWeekdays (handleWeekdayToggle s i)) \<and>
   6 \<notin> set (excludeWeekdays (handleWeekdayToggle s i)) \<and>
   includeWeekends (handleWeekdayToggle s i) \<and>
   excludeWeekdays (handleWeekdayToggle s i) =
     filter (\<lambda>d. d \<noteq> 0 \<and> d \<noteq> 6) (excludeWeekdays s) \<and>
   handleWeekdayToggle s i =
     s\<lparr>includeWeekends := True,
       excludeWeekdays := filter (\<lambda>d. d \<noteq> 0 \<and> d \<noteq> 6) (excludeWeekdays s)\<rparr>"
proof -
  assume i: "i = 0 \<or> i = 6" and ex: "i \<in> set (excludeWeekdays s)" and off: "\<not> includeWeekends s"
  have step: "handleWeekdayToggle s i =
      s\<lparr>includeWeekends := True,
        excludeWeekdays :=
          filter (\<lambda>d. d \<noteq> 0 \<and> d \<noteq> 6) (filter (\<lambda>d. d \<noteq> i) (excludeWeekdays s))\<rparr>"
    using i ex off
    by (simp add: handleWeekdayToggle_def rerender_def includeWeekendsEffect_def Let_def
        del: filter_filter)
  have "\<And>d. (d \<noteq> i \<and> d \<noteq> 0 \<and> d \<noteq> 6) = (d \<noteq> 0 \<and> d \<noteq> 6)"
    using i by auto
  then have both: "filter (\<lambda>d. d \<noteq> 0 \<and> d \<noteq> 6) (filter (\<lambda>d. d \<noteq> i) (excludeWeekdays s)) =
      filter (\<lambda>d. d \<noteq> 0 \<and> d \<noteq> 6) (excludeWeekdays s)"
    by simp
  have eq: "handleWeekdayToggle s i =
      s\<lparr>includeWeekends := True,
        excludeWeekdays := filter (\<lambda>d. d \<noteq> 0 \<and> d \<noteq> 6) (excludeWeekdays s)\<rparr>"
    unfolding step both ..
  show ?thesis
    by (simp add: eq)
qed

theorem weekend_reinclude_strips_both_witness:
  "\<not> includeWeekends (run ''2025-01-06'' [ToggleExcludedWeekday 3]) \<and>
   excludeWeekdays (run ''2025-01-06'' [ToggleExcludedWeekday 3]) = [0, 6, 3] \<and>
   excludeWeekdays (handleWeekdayToggle (run ''2025-01-06'' [ToggleExcludedWeekday 3]) 0) = [3] \<and>
   includeWeekends (handleWeekdayToggle (run ''2025-01-06'' [ToggleExcludedWeekday 3]) 0) \<and>
   excludeWeekdays (handleWeekdayToggle (run ''2025-01-06'' [ToggleExcludedWeekday 3]) 6) = [3] \<and>
   \<not> includeWeekends (mount ''2025-01-06'') \<and>
   excludeWeekdays (mount ''2025-01-06'') = [0, 6] \<and>
   excludeWeekdays (handleWeekdayToggle (mount ''2025-01-06'') 0) = [] \<and>
   includeWeekends (handleWeekdayToggle (mount ''2025-01-06'') 0)"
  using weekend_reinclude_strips_both[of 0 "run ''2025-01-06'' [ToggleExcludedWeekday 3]"]
    weekend_reinclude_strips_both[of 6 "run ''2025-01-06'' [ToggleExcludedWeekday 3]"]
    weekend_reinclude_strips_both[of 0 "mount ''2025-01-06''"]
  by (simp add: run_eval)

text \<open>
  C5. When the switch turns \<open>includeWeekends\<close> on, \<open>excludeWeekdays\<close> loses 0 and
  6 and nothing else. When it turns \<open>includeWeekends\<close> off, \<open>excludeWeekdays\<close>
  gains 0 and 6 and nothing else, has no duplicates, and holds 0 and 6 once
  each.
\<close>

theorem toggleIncludeWeekends_weekend_days:
  "(\<not> includeWeekends s \<longrightarrow>
      includeWeekends (toggleIncludeWeekends s) \<and>
      set (excludeWeekdays (toggleIncludeWeekends s)) \<inter> {0, 6} = {} \<and>
      set (excludeWeekdays (toggleIncludeWeekends s)) = set (excludeWeekdays s) - {0, 6}) \<and>
   (includeWeekends s \<longrightarrow>
      \<not> includeWeekends (toggleIncludeWeekends s) \<and>
      {0, 6} \<subseteq> set (excludeWeekdays (toggleIncludeWeekends s)) \<and>
      set (excludeWeekdays (toggleIncludeWeekends s)) = set (excludeWeekdays s) \<union> {0, 6} \<and>
      distinct (excludeWeekdays (toggleIncludeWeekends s)) \<and>
      count_list (excludeWeekdays (toggleIncludeWeekends s)) 0 = 1 \<and>
      count_list (excludeWeekdays (toggleIncludeWeekends s)) 6 = 1)"
proof (cases "includeWeekends s")
  case True
  then have ew: "excludeWeekdays (toggleIncludeWeekends s) = newSet (excludeWeekdays s @ [0, 6])"
    and iw: "\<not> includeWeekends (toggleIncludeWeekends s)"
    by (simp_all add: toggleIncludeWeekends_def rerender_def includeWeekendsEffect_def)
  have "count_list (newSet (excludeWeekdays s @ [0, 6])) 0 = 1"
    "count_list (newSet (excludeWeekdays s @ [0, 6])) 6 = 1"
    by (simp_all add: count_list_distinct distinct_newSet set_newSet)
  with True ew iw show ?thesis
    by (auto simp: set_newSet distinct_newSet)
next
  case False
  then have ew: "excludeWeekdays (toggleIncludeWeekends s) =
      filter (\<lambda>d. d \<noteq> 0 \<and> d \<noteq> 6) (excludeWeekdays s)"
    and iw: "includeWeekends (toggleIncludeWeekends s)"
    by (simp_all add: toggleIncludeWeekends_def rerender_def includeWeekendsEffect_def)
  with False show ?thesis by auto
qed

theorem toggleIncludeWeekends_weekend_days_witness:
  "includeWeekends (toggleIncludeWeekends (mount ''2025-01-06'')) \<and>
   excludeWeekdays (toggleIncludeWeekends (mount ''2025-01-06'')) = [] \<and>
   \<not> includeWeekends (toggleIncludeWeekends (toggleIncludeWeekends (mount ''2025-01-06''))) \<and>
   excludeWeekdays (toggleIncludeWeekends (toggleIncludeWeekends (mount ''2025-01-06''))) = [0, 6]"
  using toggleIncludeWeekends_weekend_days[of "mount ''2025-01-06''"]
    toggleIncludeWeekends_weekend_days[of "toggleIncludeWeekends (mount ''2025-01-06'')"]
  by (simp add: run_eval)

subsection \<open>Exclusion does not touch the fetched schedule\<close>

text \<open>
  C7. \<open>handleDateClick\<close> changes \<open>excludeDates\<close> and nothing else;
  \<open>handleWeekdayToggle\<close> changes \<open>excludeWeekdays\<close> and \<open>includeWeekends\<close> and
  nothing else; so both leave \<open>scheduledTasks\<close> as it is. A day of the index that
  the user excludes, by its date or by its weekday, is still in the index and
  its cell is marked excluded.
\<close>

theorem exclusion_toggles_keep_schedule:
  "handleDateClick s d = s\<lparr>excludeDates := excludeDates (handleDateClick s d)\<rparr> \<and>
   handleWeekdayToggle s i =
     s\<lparr>includeWeekends := includeWeekends (handleWeekdayToggle s i),
       excludeWeekdays := excludeWeekdays (handleWeekdayToggle s i)\<rparr> \<and>
   scheduledTasks (handleDateClick s d) = scheduledTasks s \<and>
   scheduledTasks (handleWeekdayToggle s i) = scheduledTasks s \<and>
   (scheduledTasks s d = Some day \<and> d \<notin> set (excludeDates s) \<longrightarrow>
      scheduledTasks (handleDateClick s d) d = Some day \<and>
      isExcluded (handleDateClick s d) d wd) \<and>
   (scheduledTasks s d = Some day \<and> wd \<notin> set (excludeWeekdays s) \<longrightarrow>
      scheduledTasks (handleWeekdayToggle s wd) d = Some day \<and>
      isExcluded (handleWeekdayToggle s wd) d wd)"
  by (auto simp: builder_defs Let_def isExcluded_def)

theorem exclusion_toggles_keep_schedule_witness:
  "scheduledTasks loadedPage ''2025-01-06'' = Some (emptyDay ''2025-01-06'') \<and>
   ''2025-01-06'' \<notin> set (excludeDates loadedPage) \<and>
   1 \<notin> set (excludeWeekdays loadedPage) \<and>
   scheduledTasks (handleDateClick loadedPage ''2025-01-06'') ''2025-01-06''
      = Some (emptyDay ''2025-01-06'') \<and>
   isExcluded (handleDateClick loadedPage ''2025-01-06'') ''2025-01-06'' 1 \<and>
   scheduledTasks (handleWeekdayToggle loadedPage 1) ''2025-01-06''
      = Some (emptyDay ''2025-01-06'') \<and>
   isExcluded (handleWeekdayToggle loadedPage 1) ''2025-01-06'' 1"
  using exclusion_toggles_keep_schedule[where s = loadedPage and d = "''2025-01-06''"
      and i = 1 and day = "emptyDay ''2025-01-06''" and wd = 1]
  by (simp add: loadedPage_def run_eval)

section \<open>Properties of the saved-schedule card\<close>

lemma findIndexFrom_cases:
  "(findIndexFrom P xs i = - 1 \<and> (\<forall>x\<in>set xs. \<not> P x)) \<or>
   (\<exists>k<length xs. findIndexFrom P xs i = i + int k \<and> P (xs ! k) \<and> (\<forall>j<k. \<not> P (xs ! j)))"
proof (induction xs arbitrary: i)
  case Nil
  then show ?case by simp
next
  case (Cons a xs)
  show ?case
  proof (cases "P a")
    case True
    then show ?thesis by auto
  next
    case False
    from Cons.IH[of "i + 1"] show ?thesis
    proof
      assume "findIndexFrom P xs (i + 1) = - 1 \<and> (\<forall>x\<in>set xs. \<not> P x)"
      with False show ?thesis by simp
    next
      assume "\<exists>k<length xs. findIndexFrom P xs (i + 1) = i + 1 + int k \<and> P (xs ! k) \<and>
                (\<forall>j<k. \<not> P (xs ! j))"
      then obtain k where k: "k < length xs" "findIndexFrom P xs (i + 1) = i + 1 + int k"
        "P (xs ! k)" "\<forall>j<k. \<not> P (xs ! j)" by blast
      have "\<forall>j<Suc k. \<not> P ((a # xs) ! j)"
        using False k(4) by (simp add: nth_Cons split: nat.split)
      with False k have "Suc k < length (a # xs) \<and>
          findIndexFrom P (a # xs) i = i + int (Suc k) \<and> P ((a # xs) ! Suc k) \<and>
          (\<forall>j<Suc k. \<not> P ((a # xs) ! j))"
        by simp
      then show ?thesis by blast
    qed
  qed
qed

lemma findIndex_none: "(\<forall>x\<in>set xs. \<not> P x) \<Longrightarrow> findIndex P xs = - 1"
  using findIndexFrom_cases[of P xs 0] nth_mem[of _ xs] unfolding findIndex_def
  by auto

lemma findIndex_some:
  assumes "\<exists>x\<in>set xs. P x"
  shows "0 \<le> findIndex P xs \<and> nat (findIndex P xs) < length xs \<and>
         P (xs ! nat (findIndex P xs)) \<and> (\<forall>j < nat (findIndex P xs). \<not> P (xs ! j))"
  using findIndexFrom_cases[of P xs 0] assms unfolding findIndex_def
  by auto

lemma findIndex_neg_iff: "(findIndex P xs = - 1) = (\<forall>x\<in>set xs. \<not> P x)"
proof
  assume "findIndex P xs = - 1"
  show "\<forall>x\<in>set xs. \<not> P x"
  proof (rule ccontr)
    assume "\<not> (\<forall>x\<in>set xs. \<not> P x)"
    then have "0 \<le> findIndex P xs" using findIndex_some[of xs P] by blast
    with \<open>findIndex P xs = - 1\<close> show False by simp
  qed
next
  assume "\<forall>x\<in>set xs. \<not> P x"
  then show "findIndex P xs = - 1" by (rule findIndex_none)
qed

lemma insertBy_insort:
  assumes "\<forall>b\<in>set ys. (cmp (f a) (f b) \<le> 0) = (f a \<le> f b)"
  shows "insertBy (\<lambda>a b. cmp (f a) (f b)) a ys = insort_key f a ys"
  using assms by (induction ys) auto

lemma sortBy_sort_key:
  assumes "\<forall>a\<in>set xs. \<forall>b\<in>set xs. (cmp (f a) (f b) \<le> 0) = (f a \<le> f b)"
  shows "sortBy (\<lambda>a b. cmp (f a) (f b)) xs = sort_key f xs"
  using assms
proof (induction xs)
  case Nil
  then show ?case by (simp add: sortBy_def)
next
  case (Cons a xs)
  then have IH: "sortBy (\<lambda>a b. cmp (f a) (f b)) xs = sort_key f xs" by simp
  have "insertBy (\<lambda>a b. cmp (f a) (f b)) a (sort_key f xs) = insort_key f a (sort_key f xs)"
    using Cons.prems by (intro insertBy_insort) simp
  with IH show ?case by (simp add: sortBy_def)
qed

lemma iso_collation_le:
  assumes "iso_collation cmp" "isoDate a" "isoDate b"
  shows "(cmp a b \<le> 0) = (a \<le> b)"
  using assms unfolding iso_collation_def by (metis order_le_less)

lemma iso_collation_codeUnitCompare: "iso_collation codeUnitCompare"
  by (simp add: iso_collation_def codeUnitCompare_def)

lemma clamp_findIndex:
  "max 0 (findIndex P xs) = (if \<exists>x\<in>set xs. P x then findIndex P xs else 0)"
  using findIndex_some[of xs P] findIndex_none[of xs P] by auto

lemma clamp_findIndex_jump:
  "max 0 (if findIndex P xs = - 1 then 0 else findIndex P xs) =
     (if \<exists>x\<in>set xs. P x then findIndex P xs else 0)"
  using findIndex_some[of xs P] by (auto simp: findIndex_neg_iff)

lemma first_upcoming_least:
  assumes "sorted (map date D)" and "d \<in> set D" and "t < date d"
  shows "date (D ! nat (findIndex (\<lambda>d. t < date d) D)) \<le> date d"
proof -
  let ?i = "nat (findIndex (\<lambda>d. t < date d) D)"
  from assms(2) obtain k where k: "k < length D" "D ! k = d"
    by (auto simp: in_set_conv_nth)
  have ex: "\<exists>x\<in>set D. t < date x" using assms(2,3) by blast
  from findIndex_some[OF ex] have "\<forall>j<?i. \<not> t < date (D ! j)" by blast
  with k assms(3) have "?i \<le> k" by (meson not_le_imp_less)
  with k(1) have "map date D ! ?i \<le> map date D ! k"
    using sorted_nth_mono[OF assms(1), of ?i k] by simp
  with k \<open>?i \<le> k\<close> show ?thesis by simp
qed

lemma defaultSelection_eq:
  "defaultSelection D today =
     (if \<exists>d\<in>set D. date d = today then findIndex (\<lambda>d. date d = today) D
      else if \<exists>d\<in>set D. today < date d then findIndex (\<lambda>d. today < date d) D
      else 0)"
proof (cases "\<exists>d\<in>set D. date d = today")
  case True
  then have "findIndex (\<lambda>d. date d = today) D \<noteq> - 1"
    by (simp add: findIndex_neg_iff)
  with True show ?thesis
    by (simp add: defaultSelection_def Let_def clamp_findIndex)
next
  case False
  then have "findIndex (\<lambda>d. date d = today) D = - 1"
    by (simp add: findIndex_neg_iff)
  with False show ?thesis
    by (simp add: defaultSelection_def Let_def clamp_findIndex)
qed

lemma jump_index:
  fixes xs :: "'a list" and P :: "'a \<Rightarrow> bool"
  defines "r \<equiv> max 0 (if findIndex P xs = - 1 then 0 else findIndex P xs)"
  shows "((\<exists>x\<in>set xs. P x) \<longrightarrow>
            0 \<le> r \<and> nat r < length xs \<and> P (xs ! nat r) \<and> (\<forall>j<nat r. \<not> P (xs ! j))) \<and>
         ((\<forall>x\<in>set xs. \<not> P x) \<longrightarrow> r = 0)"
  using findIndex_some[of xs P] by (auto simp: r_def clamp_findIndex_jump)

lemma load_days:
  assumes "iso_collation localeCompare" and "\<forall>d\<in>set (response_days data). isoDate (date d)"
    and "fetch_json outcome = Inr data"
  shows "days (fst (load localeCompare s outcome today)) = sort_key date (response_days data)"
proof -
  have "\<forall>a\<in>set (response_days data). \<forall>b\<in>set (response_days data).
          (localeCompare (date a) (date b) \<le> 0) = (date a \<le> date b)"
    using assms(1,2) by (simp add: iso_collation_le)
  then have "sortBy (\<lambda>a b. localeCompare (date a) (date b)) (response_days data) =
      sort_key date (response_days data)"
    by (rule sortBy_sort_key)
  with assms(3) show ?thesis by (simp add: load_def Let_def)
qed

lemmas card_eval = defaultSelection_def findIndex_def emptyDay_def currentDay_def headerLabel_def
  initialCard_def

subsection \<open>The selection after a load\<close>

text \<open>
  C10. After a successful fetch whose days carry \<open>yyyy-MM-dd\<close> dates, under a
  collation that orders such strings as their code units do, the stored day list
  is sorted ascending by date and is a permutation of the received days,
  whatever their order was; the selected index is the default selection on the
  sorted list; and none of the five buttons changes the day list.
\<close>

theorem load_sorts_days:
  assumes "iso_collation localeCompare" and "\<forall>d\<in>set (response_days data). isoDate (date d)"
    and "fetch_json outcome = Inr data"
  shows "sorted (map date (days (fst (load localeCompare s outcome today)))) \<and>
         mset (days (fst (load localeCompare s outcome today))) = mset (response_days data) \<and>
         currentIndex (fst (load localeCompare s outcome today)) =
           defaultSelection (days (fst (load localeCompare s outcome today))) today \<and>
         days (onPrevClick c) = days c \<and> days (onNextClick c) = days c \<and>
         days (onTodayClick c t) = days c \<and> days (onTomorrowClick c t) = days c \<and>
         days (onUpcomingClick c t) = days c"
proof -
  note d = load_days[OF assms, of s today]
  have "currentIndex (fst (load localeCompare s outcome today)) =
           defaultSelection (days (fst (load localeCompare s outcome today))) today"
    using assms(3) by (simp add: load_def Let_def)
  moreover have "days (onPrevClick c) = days c \<and> days (onNextClick c) = days c \<and>
         days (onTodayClick c t) = days c \<and> days (onTomorrowClick c t) = days c \<and>
         days (onUpcomingClick c t) = days c"
    by (simp add: onPrevClick_def onNextClick_def onTodayClick_def onTomorrowClick_def
        onUpcomingClick_def Let_def)
  ultimately show ?thesis by (simp add: d)
qed

theorem load_sorts_days_witness:
  "iso_collation codeUnitCompare \<and>
   map date (response_days unsortedResponse) = [''2025-01-09'', ''2025-01-06'', ''2025-01-07''] \<and>
   isoDate ''2025-01-09'' \<and> isoDate ''2025-01-06'' \<and> isoDate ''2025-01-07'' \<and>
   fetch_json (Responded 200 (Some unsortedResponse)) = Inr unsortedResponse \<and>
   fst (load codeUnitCompare initialCard (Responded 200 (Some unsortedResponse)) ''2025-01-08'') =
     \<lparr> days = [emptyDay ''2025-01-06'', emptyDay ''2025-01-07'', emptyDay ''2025-01-09''],
       card_timezone = ''Asia/Kolkata'', currentIndex = 2, card_isLoading = False \<rparr>"
proof -
  have a: "iso_collation codeUnitCompare" by (rule iso_collation_codeUnitCompare)
  have m: "map date (response_days unsortedResponse) =
      [''2025-01-09'', ''2025-01-06'', ''2025-01-07'']"
    by (simp add: unsortedResponse_def response_days_def emptyDay_def)
  have i: "isoDate ''2025-01-09''" "isoDate ''2025-01-06''" "isoDate ''2025-01-07''"
    by (simp_all add: isDigit_def)
  have b: "\<forall>d\<in>set (response_days unsortedResponse). isoDate (date d)"
    by (simp add: unsortedResponse_def response_days_def emptyDay_def isDigit_def)
  have c: "fetch_json (Responded 200 (Some unsortedResponse)) = Inr unsortedResponse"
    by (simp add: res_ok_def)
  have e: "fst (load codeUnitCompare initialCard (Responded 200 (Some unsortedResponse)) ''2025-01-08'') =
     \<lparr> days = [emptyDay ''2025-01-06'', emptyDay ''2025-01-07'', emptyDay ''2025-01-09''],
       card_timezone = ''Asia/Kolkata'', currentIndex = 2, card_isLoading = False \<rparr>"
    by (simp add: load_def res_ok_def unsortedResponse_def response_days_def response_timezone_def
        sortBy_def codeUnitCompare_def emptyDay_def defaultSelection_def findIndex_def
        initialCard_def)
  from a m i c e load_sorts_days[OF a b c, of initialCard "''2025-01-08''"] show ?thesis by simp
qed

text \<open>
  C3. On a day list sorted ascending by date, the default selection is the first
  index whose date equals today if there is one; otherwise the first index whose
  date is greater than today, which holds the earliest such date; otherwise 0.
  On the empty list it is 0, there is no current day, and the header reads
  "No schedule".
\<close>

theorem initial_selection:
  fixes D :: "ScheduleDay list" and s :: CardState and today :: string
  defines "idx \<equiv> defaultSelection D today"
  assumes srt: "sorted (map date D)"
  shows "((\<exists>d\<in>set D. date d = today) \<longrightarrow>
            0 \<le> idx \<and> nat idx < length D \<and> date (D ! nat idx) = today \<and>
            (\<forall>j<nat idx. date (D ! j) \<noteq> today)) \<and>
         ((\<forall>d\<in>set D. date d \<noteq> today) \<and> (\<exists>d\<in>set D. today < date d) \<longrightarrow>
            0 \<le> idx \<and> nat idx < length D \<and> today < date (D ! nat idx) \<and>
            (\<forall>j<nat idx. \<not> today < date (D ! j)) \<and>
            (\<forall>d\<in>set D. today < date d \<longrightarrow> date (D ! nat idx) \<le> date d)) \<and>
         ((\<forall>d\<in>set D. date d \<noteq> today \<and> \<not> today < date d) \<longrightarrow> idx = 0) \<and>
         (D = [] \<longrightarrow>
            idx = 0 \<and> currentDay (s\<lparr>days := D, currentIndex := idx\<rparr>) = None \<and>
            headerLabel fmt today tomorrow (s\<lparr>days := D, currentIndex := idx\<rparr>) = ''No schedule'')"
proof (intro conjI impI)
  assume a: "\<exists>d\<in>set D. date d = today"
  then have "idx = findIndex (\<lambda>d. date d = today) D"
    by (simp add: idx_def defaultSelection_eq)
  with findIndex_some[OF a]
  show "0 \<le> idx" "nat idx < length D" "date (D ! nat idx) = today"
    "\<forall>j<nat idx. date (D ! j) \<noteq> today" by simp_all
next
  assume a: "(\<forall>d\<in>set D. date d \<noteq> today) \<and> (\<exists>d\<in>set D. today < date d)"
  then have ex: "\<exists>d\<in>set D. today < date d" by blast
  from a have eq: "idx = findIndex (\<lambda>d. today < date d) D"
    by (simp add: idx_def defaultSelection_eq)
  with findIndex_some[OF ex]
  show "0 \<le> idx" "nat idx < length D" "today < date (D ! nat idx)"
    "\<forall>j<nat idx. \<not> today < date (D ! j)" by simp_all
  show "\<forall>d\<in>set D. today < date d \<longrightarrow> date (D ! nat idx) \<le> date d"
    using first_upcoming_least[OF srt] by (simp add: eq)
next
  assume "\<forall>d\<in>set D. date d \<noteq> today \<and> \<not> today < date d"
  then show "idx = 0" by (simp add: idx_def defaultSelection_eq)
next
  assume e: "D = []"
  then show i0: "idx = 0" by (simp add: idx_def defaultSelection_eq)
  from e i0 show "currentDay (s\<lparr>days := D, currentIndex := idx\<rparr>) = None"
    by (simp add: currentDay_def)
  then show "headerLabel fmt today tomorrow (s\<lparr>days := D, currentIndex := idx\<rparr>) = ''No schedule''"
    by (simp add: headerLabel_def)
qed

theorem initial_selection_witness:
  "sorted (map date [emptyDay ''2025-01-06'', emptyDay ''2025-01-08'']) \<and>
   defaultSelection [emptyDay ''2025-01-06'', emptyDay ''2025-01-08''] ''2025-01-08'' = 1 \<and>
   defaultSelection [emptyDay ''2025-01-06'', emptyDay ''2025-01-08''] ''2025-01-07'' = 1 \<and>
   defaultSelection [emptyDay ''2025-01-06'', emptyDay ''2025-01-08''] ''2025-01-09'' = 0 \<and>
   sorted (map date []) \<and> defaultSelection [] ''2025-01-06'' = 0 \<and>
   headerLabel (\<lambda>d. d) ''2025-01-06'' ''2025-01-07''
     (initialCard\<lparr>days := [], currentIndex := defaultSelection [] ''2025-01-06''\<rparr>) = ''No schedule''"
  using initial_selection[where D = "[emptyDay ''2025-01-06'', emptyDay ''2025-01-08'']" and today = "''2025-01-08''"]
        initial_selection[where D = "[emptyDay ''2025-01-06'', emptyDay ''2025-01-08'']" and today = "''2025-01-07''"]
        initial_selection[where D = "[emptyDay ''2025-01-06'', emptyDay ''2025-01-08'']" and today = "''2025-01-09''"]
        initial_selection[where D = "[]" and today = "''2025-01-06''" and s = initialCard and fmt = "\<lambda>d. d"
           and tomorrow = "''2025-01-07''"]
  by (simp add: card_eval)

subsection \<open>Navigation\<close>

text \<open>
  C6. The previous button does nothing at index 0 and the next button does
  nothing at the last index (nor on the empty list); at any other index of the
  list they move the selection by one, down and up, and the selection stays
  inside the list.
\<close>

theorem navigation_clamped:
  "(currentIndex s = 0 \<longrightarrow> onPrevClick s = s) \<and>
   (days s \<noteq> [] \<and> currentIndex s = int (length (days s)) - 1 \<longrightarrow> onNextClick s = s) \<and>
   (days s = [] \<and> currentIndex s = 0 \<longrightarrow> onNextClick s = s) \<and>
   (0 < currentIndex s \<longrightarrow> onPrevClick s = s\<lparr>currentIndex := currentIndex s - 1\<rparr>) \<and>
   (0 \<le> currentIndex s \<and> currentIndex s < int (length (days s)) - 1 \<longrightarrow>
      onNextClick s = s\<lparr>currentIndex := currentIndex s + 1\<rparr>) \<and>
   (0 \<le> currentIndex s \<and> currentIndex s < int (length (days s)) \<longrightarrow>
      0 \<le> currentIndex (onPrevClick s) \<and> currentIndex (onPrevClick s) < int (length (days s)) \<and>
      0 \<le> currentIndex (onNextClick s) \<and> currentIndex (onNextClick s) < int (length (days s)))"
  by (auto simp: onPrevClick_def onNextClick_def canPrev_def canNext_def)

theorem navigation_clamped_witness:
  "onPrevClick threeDays = threeDays \<and>
   currentIndex (onNextClick threeDays) = 1 \<and>
   currentIndex (onPrevClick (threeDays\<lparr>currentIndex := 1\<rparr>)) = 0 \<and>
   onNextClick (threeDays\<lparr>currentIndex := 2\<rparr>) = threeDays\<lparr>currentIndex := 2\<rparr> \<and>
   onNextClick initialCard = initialCard"
  using navigation_clamped[of threeDays] navigation_clamped[of "threeDays\<lparr>currentIndex := 1\<rparr>"]
    navigation_clamped[of "threeDays\<lparr>currentIndex := 2\<rparr>"] navigation_clamped[of initialCard]
  by (simp add: threeDays_def initialCard_def)

text \<open>
  C8. On the empty day list the Today, Tomorrow and Upcoming buttons change
  nothing. On a non-empty list each changes the selected index only: Today
  selects the first entry dated today, Tomorrow the first entry dated tomorrow,
  Upcoming the first entry dated after today (on a sorted list, the earliest
  such date), and each selects index 0 when no entry matches.
\<close>

theorem jump_buttons:
  "(days s = [] \<longrightarrow>
      onTodayClick s today = s \<and> onTomorrowClick s tomorrow = s \<and> onUpcomingClick s today = s) \<and>
   (days s \<noteq> [] \<longrightarrow>
      onTodayClick s today = s\<lparr>currentIndex := currentIndex (onTodayClick s today)\<rparr> \<and>
      onTomorrowClick s tomorrow = s\<lparr>currentIndex := currentIndex (onTomorrowClick s tomorrow)\<rparr> \<and>
      onUpcomingClick s today = s\<lparr>currentIndex := currentIndex (onUpcomingClick s today)\<rparr> \<and>
      ((\<exists>d\<in>set (days s). date d = today) \<longrightarrow>
         0 \<le> currentIndex (onTodayClick s today) \<and>
         nat (currentIndex (onTodayClick s today)) < length (days s) \<and>
         date (days s ! nat (currentIndex (onTodayClick s today))) = today \<and>
         (\<forall>j<nat (currentIndex (onTodayClick s today)). date (days s ! j) \<noteq> today)) \<and>
      ((\<forall>d\<in>set (days s). date d \<noteq> today) \<longrightarrow> currentIndex (onTodayClick s today) = 0) \<and>
      ((\<exists>d\<in>set (days s). date d = tomorrow) \<longrightarrow>
         0 \<le> currentIndex (onTomorrowClick s tomorrow) \<and>
         nat (currentIndex (onTomorrowClick s tomorrow)) < length (days s) \<and>
         date (days s ! nat (currentIndex (onTomorrowClick s tomorrow))) = tomorrow \<and>
         (\<forall>j<nat (currentIndex (onTomorrowClick s tomorrow)). date (days s ! j) \<noteq> tomorrow)) \<and>
      ((\<forall>d\<in>set (days s). date d \<noteq> tomorrow) \<longrightarrow>
         currentIndex (onTomorrowClick s tomorrow) = 0) \<and>
      ((\<exists>d\<in>set (days s). today < date d) \<longrightarrow>
         0 \<le> currentIndex (onUpcomingClick s today) \<and>
         nat (currentIndex (onUpcomingClick s today)) < length (days s) \<and>
         today < date (days s ! nat (currentIndex (onUpcomingClick s today))) \<and>
         (\<forall>j<nat (currentIndex (onUpcomingClick s today)). \<not> today < date (days s ! j)) \<and>
         (sorted (map date (days s)) \<longrightarrow>
            (\<forall>d\<in>set (days s). today < date d \<longrightarrow>
               date (days s ! nat (currentIndex (onUpcomingClick s today))) \<le> date d))) \<and>
      ((\<forall>d\<in>set (days s). \<not> today < date d) \<longrightarrow> currentIndex (onUpcomingClick s today) = 0))"
proof (cases "days s = []")
  case True
  then show ?thesis
    by (simp add: onTodayClick_def onTomorrowClick_def onUpcomingClick_def)
next
  case False
  have t: "currentIndex (onTodayClick s today) =
      max 0 (if findIndex (\<lambda>d. date d = today) (days s) = - 1 then 0
             else findIndex (\<lambda>d. date d = today) (days s))"
    using False by (simp add: onTodayClick_def Let_def)
  have m: "currentIndex (onTomorrowClick s tomorrow) =
      max 0 (if findIndex (\<lambda>d. date d = tomorrow) (days s) = - 1 then 0
             else findIndex (\<lambda>d. date d = tomorrow) (days s))"
    using False by (simp add: onTomorrowClick_def Let_def)
  have u: "currentIndex (onUpcomingClick s today) =
      max 0 (if findIndex (\<lambda>d. today < date d) (days s) = - 1 then 0
             else findIndex (\<lambda>d. today < date d) (days s))"
    using False by (simp add: onUpcomingClick_def Let_def)
  have frame: "onTodayClick s today = s\<lparr>currentIndex := currentIndex (onTodayClick s today)\<rparr>"
    "onTomorrowClick s tomorrow = s\<lparr>currentIndex := currentIndex (onTomorrowClick s tomorrow)\<rparr>"
    "onUpcomingClick s today = s\<lparr>currentIndex := currentIndex (onUpcomingClick s today)\<rparr>"
    using False by (simp_all add: onTodayClick_def onTomorrowClick_def onUpcomingClick_def Let_def)
  have todayP: "((\<exists>d\<in>set (days s). date d = today) \<longrightarrow>
         0 \<le> currentIndex (onTodayClick s today) \<and>
         nat (currentIndex (onTodayClick s today)) < length (days s) \<and>
         date (days s ! nat (currentIndex (onTodayClick s today))) = today \<and>
         (\<forall>j<nat (currentIndex (onTodayClick s today)). date (days s ! j) \<noteq> today)) \<and>
      ((\<forall>d\<in>set (days s). date d \<noteq> today) \<longrightarrow> currentIndex (onTodayClick s today) = 0)"
    unfolding t by (rule jump_index)
  have tomorrowP: "((\<exists>d\<in>set (days s). date d = tomorrow) \<longrightarrow>
         0 \<le> currentIndex (onTomorrowClick s tomorrow) \<and>
         nat (currentIndex (onTomorrowClick s tomorrow)) < length (days s) \<and>
         date (days s ! nat (currentIndex (onTomorrowClick s tomorrow))) = tomorrow \<and>
         (\<forall>j<nat (currentIndex (onTomorrowClick s tomorrow)). date (days s ! j) \<noteq> tomorrow)) \<and>
      ((\<forall>d\<in>set (days s). date d \<noteq> tomorrow) \<longrightarrow>
         currentIndex (onTomorrowClick s tomorrow) = 0)"
    unfolding m by (rule jump_index)
  have upcomingP: "((\<exists>d\<in>set (days s). today < date d) \<longrightarrow>
         0 \<le> currentIndex (onUpcomingClick s today) \<and>
         nat (currentIndex (onUpcomingClick s today)) < length (days s) \<and>
         today < date (days s ! nat (currentIndex (onUpcomingClick s today))) \<and>
         (\<forall>j<nat (currentIndex (onUpcomingClick s today)). \<not> today < date (days s ! j))) \<and>
      ((\<forall>d\<in>set (days s). \<not> today < date d) \<longrightarrow> currentIndex (onUpcomingClick s today) = 0)"
    unfolding u by (rule jump_index)
  have least: "sorted (map date (days s)) \<longrightarrow>
            (\<forall>d\<in>set (days s). today < date d \<longrightarrow>
               date (days s ! nat (currentIndex (onUpcomingClick s today))) \<le> date d)"
  proof (intro impI ballI)
    fix d assume srt: "sorted (map date (days s))" and d: "d \<in> set (days s)" "today < date d"
    then have "\<exists>x\<in>set (days s). today < date x" by blast
    then have "currentIndex (onUpcomingClick s today) = findIndex (\<lambda>d. today < date d) (days s)"
      by (simp add: u clamp_findIndex_jump)
    with first_upcoming_least[OF srt d]
    show "date (days s ! nat (currentIndex (onUpcomingClick s today))) \<le> date d" by simp
  qed
  from False frame todayP tomorrowP upcomingP least show ?thesis by blast
qed

theorem jump_buttons_witness:
  "currentIndex (onTodayClick threeDays ''2025-01-07'') = 1 \<and>
   currentIndex (onTomorrowClick (threeDays\<lparr>currentIndex := 1\<rparr>) ''2025-01-08'') = 0 \<and>
   currentIndex (onUpcomingClick threeDays ''2025-01-07'') = 2 \<and>
   sorted (map date (days threeDays)) \<and>
   currentIndex (onTodayClick (threeDays\<lparr>currentIndex := 2\<rparr>) ''2025-01-10'') = 0 \<and>
   currentIndex (onTomorrowClick threeDays ''2025-01-09'') = 2 \<and>
   currentIndex (onUpcomingClick (threeDays\<lparr>currentIndex := 2\<rparr>) ''2025-01-10'') = 0 \<and>
   onTodayClick initialCard ''2025-01-07'' = initialCard \<and>
   onTomorrowClick initialCard ''2025-01-08'' = initialCard \<and>
   onUpcomingClick initialCard ''2025-01-07'' = initialCard"
  using jump_buttons[where s = threeDays and today = "''2025-01-07''" and tomorrow = "''2025-01-09''"]
    jump_buttons[where s = "threeDays\<lparr>currentIndex := 1\<rparr>" and today = "''2025-01-07''"
       and tomorrow = "''2025-01-08''"]
    jump_buttons[where s = "threeDays\<lparr>currentIndex := 2\<rparr>" and today = "''2025-01-10''"
       and tomorrow = "''2025-01-11''"]
    jump_buttons[where s = initialCard and today = "''2025-01-07''" and tomorrow = "''2025-01-08''"]
  by (simp add: threeDays_def initialCard_def emptyDay_def onTodayClick_def onTomorrowClick_def
      onUpcomingClick_def findIndex_def)

end
